theory Spec2Isabelle
  imports Complex_Main
begin

section \<open>Data model (src/types/enums.ts, src/types/interfaces.ts)\<close>

datatype EventType = DEV_EVENT | CI_EVENT | PR_EVENT

datatype AgentType = API_AGENT | MOBILE_AGENT | WIREMOCK_AGENT

datatype TaskStatus = PENDING | RUNNING | COMPLETED | FAILED

text \<open>
  \<open>timestamp\<close> is a JavaScript \<open>Date\<close>, kept as its millisecond count; \<open>metadata\<close> is an
  open key-value object, kept as an association list.
\<close>

record CIPipelineEvent =
  eventType :: EventType
  timestamp :: nat
  branch :: string
  commitHash :: string
  author :: string
  metadata :: "(string \<times> string) list"

text \<open>
  \<open>task_output\<close> is the field \<open>output\<close>; \<open>error\<close> is the optional field
  \<open>error?: string\<close>, where \<open>None\<close> is \<open>undefined\<close>.
\<close>

record TaskResult =
  taskName :: string
  status :: TaskStatus
  task_output :: string
  duration :: real
  error :: "string option"

text \<open>The counts are JavaScript numbers holding integers.\<close>

record AgentReport =
  agentType :: AgentType
  totalTests :: int
  passedTests :: int
  failedTests :: int
  testResults :: "TaskResult list"

text \<open>
  \<open>agentReports\<close> is a \<open>Record<string, AgentReport>\<close>: an association list in insertion
  order, which is the order \<open>Object.entries\<close> and \<open>JSON.stringify\<close> follow.
\<close>

record PipelineResult =
  event :: CIPipelineEvent
  taskResults :: "TaskResult list"
  agentReports :: "(string \<times> AgentReport) list"
  generatedReports :: "string list"
  pipelineStatus :: string

section \<open>Exceptions and the outside world\<close>

text \<open>
  A thrown JavaScript value. The handlers of the agents evaluate
  \<open>error instanceof Error ? error.message : String(error)\<close> on it, and a thrown value is
  kept by what that expression does with it:
  \<^item> \<open>ErrorObject m\<close> is an \<open>Error\<close> object whose \<open>message\<close> is the string \<open>m\<close>, as
    \<open>new Error(...)\<close>, the runtime and Node's library make them;
  \<^item> \<open>OtherValue s\<close> is a value that is no \<open>Error\<close> and that \<open>String\<close> converts to \<open>s\<close>;
  \<^item> \<open>Unconvertible e\<close> is a value on which the expression itself throws \<open>e\<close>: an
    object that is no \<open>Error\<close> and has no usable \<open>toString\<close> (\<open>Object.create(null)\<close>,
    for which \<open>String\<close> throws a TypeError), or whose \<open>toString\<close> throws.
  An \<open>Error\<close> whose \<open>message\<close> was replaced by a value that is not a string has no
  representation: the field \<open>error\<close> of a TaskResult is declared \<open>string\<close>.
\<close>

datatype thrown = ErrorObject string | OtherValue string | Unconvertible thrown

text \<open>
  \<open>error instanceof Error ? error.message : String(error)\<close>: the text (\<open>Inr\<close>), or the
  value the conversion throws (\<open>Inl\<close>).
\<close>

fun error_text :: "thrown \<Rightarrow> thrown + string" where
  "error_text (ErrorObject message) = Inr message"
| "error_text (OtherValue s) = Inr s"
| "error_text (Unconvertible e) = Inl e"

text \<open>
  The object \<open>data\<close> that \<open>generateAllureReport\<close> serialises into the report file. A file
  is kept as this object rather than as its JSON text.
\<close>

record report_data =
  data_timestamp :: string
  data_totalTests :: int
  passed :: int
  failed :: int
  results :: "TaskResult list"

text \<open>
  The world outside the program: the files written so far (path to content) and
  \<open>rest\<close>, everything else the program can read or change (the clock, child processes,
  devices, the private bookkeeping lists of the agents).
\<close>

record 'x world =
  files :: "string \<rightharpoonup> report_data"
  rest :: 'x

text \<open>
  The operations of the outside world the code calls. \<open>dateNow\<close> is \<open>Date.now()\<close>. The
  seven task bodies are the private methods of the agents that shell out
  (\<open>execSync\<close>), sleep on timers or drive a remote device; each one either returns its
  output text or throws. \<open>mkdir_fault\<close> and \<open>writeFile_fault\<close> say whether
  \<open>fs.mkdir\<close> and \<open>fs.writeFile\<close> reject, and with what. \<open>toISOString\<close> renders a
  millisecond count as \<open>Date.prototype.toISOString\<close> does. \<open>delay\<close> is a timer of the
  given number of milliseconds running out. \<open>path_join\<close> is \<open>path.join\<close> of Node's
  library on two arguments, whose result depends on the platform and on the
  normalisation of the joined path.
  \<open>'c\<close> is the type of the task context (\<open>Record<string, any>\<close>).
\<close>

record ('c, 'x) env =
  dateNow :: "'x world \<Rightarrow> nat \<times> 'x world"
  runPostmanTests :: "'c \<Rightarrow> 'x world \<Rightarrow> (thrown + string) \<times> 'x world"
  validateApiEndpoints :: "'c \<Rightarrow> 'x world \<Rightarrow> (thrown + string) \<times> 'x world"
  runAppiumTests :: "'c \<Rightarrow> 'x world \<Rightarrow> (thrown + string) \<times> 'x world"
  runWebDriverTests :: "'c \<Rightarrow> 'x world \<Rightarrow> (thrown + string) \<times> 'x world"
  runWiremockTests :: "'c \<Rightarrow> 'x world \<Rightarrow> (thrown + string) \<times> 'x world"
  validateWiremocks :: "'c \<Rightarrow> 'x world \<Rightarrow> (thrown + string) \<times> 'x world"
  runHeadSpinIOSSmokeTest :: "'x world \<Rightarrow> (thrown + string) \<times> 'x world"
  mkdir_fault :: "string \<Rightarrow> 'x world \<Rightarrow> thrown option"
  writeFile_fault :: "string \<Rightarrow> 'x world \<Rightarrow> thrown option"
  toISOString :: "nat \<Rightarrow> string"
  delay :: "nat \<Rightarrow> 'x world \<Rightarrow> 'x world"
  path_join :: "string \<Rightarrow> string \<Rightarrow> string"

text \<open>\<open>fs.mkdir(dir, {recursive: true})\<close>: rejects, or succeeds (also when the directory exists).\<close>

definition fs_mkdir :: "('c, 'x) env \<Rightarrow> string \<Rightarrow> 'x world \<Rightarrow> (thrown + unit) \<times> 'x world" where
  "fs_mkdir E dir W =
     (case mkdir_fault E dir W of
        Some e \<Rightarrow> (Inl e, W)
      | None \<Rightarrow> (Inr (), W))"

text \<open>\<open>fs.writeFile(path, content)\<close>: rejects, or replaces the content of the file at the path.\<close>

definition fs_writeFile ::
  "('c, 'x) env \<Rightarrow> string \<Rightarrow> report_data \<Rightarrow> 'x world \<Rightarrow> (thrown + unit) \<times> 'x world" where
  "fs_writeFile E filePath content W =
     (case writeFile_fault E filePath W of
        Some e \<Rightarrow> (Inl e, W)
      | None \<Rightarrow> (Inr (), W\<lparr>files := (files W)(filePath \<mapsto> content)\<rparr>))"

text \<open>The decimal text of a non-negative integer, as a template literal renders it.\<close>

definition digit_char :: "nat \<Rightarrow> char" where
  "digit_char n = ''0123456789'' ! n"

function show_nat :: "nat \<Rightarrow> string" where
  "show_nat n = (if n < 10 then [digit_char n] else show_nat (n div 10) @ [digit_char (n mod 10)])"
  by pat_completeness auto
termination
  by (relation "measure (\<lambda>n. n)") auto

declare show_nat.simps [simp del]

section \<open>Agents (BaseAgent, APIAgent, MobileAgent, WireMockAgent, HeadSpinAgent)\<close>

datatype agent_class = APIAgent | MobileAgent | WireMockAgent | HeadSpinAgent

text \<open>
  An agent object: the fields of \<open>BaseAgent\<close>, the private \<open>testResults\<close> history that
  every subclass declares, and the class of the object, which selects the method
  bodies. The lists \<open>postmanCollections\<close>, \<open>devices\<close> and \<open>wiremocks\<close> are read and
  written by the task bodies only and belong to \<open>rest\<close>.
\<close>

record agent =
  name :: string
  this_agentType :: AgentType
  tasks :: "string list"
  this_testResults :: "TaskResult list"
  cls :: agent_class

definition new_APIAgent :: agent where
  "new_APIAgent = \<lparr>name = ''API Agent'', this_agentType = API_AGENT, tasks = [],
     this_testResults = [], cls = APIAgent\<rparr>"

definition new_MobileAgent :: agent where
  "new_MobileAgent = \<lparr>name = ''Mobile Agent'', this_agentType = MOBILE_AGENT, tasks = [],
     this_testResults = [], cls = MobileAgent\<rparr>"

definition new_WireMockAgent :: agent where
  "new_WireMockAgent = \<lparr>name = ''Wiremock Agent'', this_agentType = WIREMOCK_AGENT, tasks = [],
     this_testResults = [], cls = WireMockAgent\<rparr>"

definition new_HeadSpinAgent :: agent where
  "new_HeadSpinAgent = \<lparr>name = ''HeadSpin Agent'', this_agentType = MOBILE_AGENT, tasks = [],
     this_testResults = [], cls = HeadSpinAgent\<rparr>"

definition new_agent :: "agent_class \<Rightarrow> agent" where
  "new_agent c =
     (case c of
        APIAgent \<Rightarrow> new_APIAgent
      | MobileAgent \<Rightarrow> new_MobileAgent
      | WireMockAgent \<Rightarrow> new_WireMockAgent
      | HeadSpinAgent \<Rightarrow> new_HeadSpinAgent)"

text \<open>
  \<open>BaseAgent.measureExecutionTime\<close>: reads the clock, awaits the operation and, when the
  operation returned, reads the clock again; the duration is in seconds. When the
  operation throws, the exception passes through.
\<close>

definition measureExecutionTime ::
  "('c, 'x) env \<Rightarrow> ('x world \<Rightarrow> (thrown + string) \<times> 'x world) \<Rightarrow> 'x world
     \<Rightarrow> (thrown + string \<times> real) \<times> 'x world" where
  "measureExecutionTime E operation W =
     (let (startTime, W1) = dateNow E W in
      case operation W1 of
        (Inl e, W2) \<Rightarrow> (Inl e, W2)
      | (Inr result, W2) \<Rightarrow>
          (let (endTime, W3) = dateNow E W2 in
           (Inr (result, (real endTime - real startTime) / 1000), W3)))"

definition createTaskResult ::
  "string \<Rightarrow> TaskStatus \<Rightarrow> string \<Rightarrow> real \<Rightarrow> string option \<Rightarrow> TaskResult" where
  "createTaskResult taskName' status' output' duration' error' =
     \<lparr>taskName = taskName', status = status', task_output = output', duration = duration',
      error = error'\<rparr>"

text \<open>The \<open>switch (task)\<close> of each class: the operation handed to \<open>measureExecutionTime\<close>.\<close>

definition APIAgent_operation ::
  "('c, 'x) env \<Rightarrow> string \<Rightarrow> 'c \<Rightarrow> 'x world \<Rightarrow> (thrown + string) \<times> 'x world" where
  "APIAgent_operation E task ctx W =
     (if task = ''postman_tests'' then runPostmanTests E ctx W
      else if task = ''api_validation'' then validateApiEndpoints E ctx W
      else (Inl (ErrorObject (''Unknown task: '' @ task)), W))"

definition MobileAgent_operation ::
  "('c, 'x) env \<Rightarrow> string \<Rightarrow> 'c \<Rightarrow> 'x world \<Rightarrow> (thrown + string) \<times> 'x world" where
  "MobileAgent_operation E task ctx W =
     (if task = ''appium_tests'' then runAppiumTests E ctx W
      else if task = ''webdriver_tests'' then runWebDriverTests E ctx W
      else (Inl (ErrorObject (''Unknown task: '' @ task)), W))"

definition WireMockAgent_operation ::
  "('c, 'x) env \<Rightarrow> string \<Rightarrow> 'c \<Rightarrow> 'x world \<Rightarrow> (thrown + string) \<times> 'x world" where
  "WireMockAgent_operation E task ctx W =
     (if task = ''wiremock_tests'' then runWiremockTests E ctx W
      else if task = ''mock_validation'' then validateWiremocks E ctx W
      else (Inl (ErrorObject (''Unknown task: '' @ task)), W))"

definition HeadSpinAgent_operation ::
  "('c, 'x) env \<Rightarrow> string \<Rightarrow> 'c \<Rightarrow> 'x world \<Rightarrow> (thrown + string) \<times> 'x world" where
  "HeadSpinAgent_operation E task ctx W =
     (if task = ''headspin_ios_smoke'' then runHeadSpinIOSSmokeTest E W
      else (Inl (ErrorObject (''Unknown task: '' @ task)), W))"

text \<open>
  \<open>executeTask\<close> of \<open>APIAgent\<close>, \<open>WireMockAgent\<close> and \<open>HeadSpinAgent\<close> (the same text but
  for the \<open>switch\<close>): the \<open>try\<close> block measures the operation, builds a COMPLETED result,
  pushes it and returns it; the \<open>catch\<close> block converts the thrown value to a text,
  builds a FAILED result with it, pushes it and returns it. The conversion stands in
  the \<open>catch\<close> block, outside any \<open>try\<close>: what it throws leaves \<open>executeTask\<close> before
  anything is pushed. The first component is the settled promise: \<open>Inr\<close> when it
  resolves, \<open>Inl\<close> when it rejects.
\<close>

definition executeTask_push ::
  "('c, 'x) env \<Rightarrow> ('x world \<Rightarrow> (thrown + string) \<times> 'x world) \<Rightarrow> agent \<Rightarrow> string \<Rightarrow> 'x world
     \<Rightarrow> (thrown + TaskResult) \<times> agent \<times> 'x world" where
  "executeTask_push E operation a task W =
     (case measureExecutionTime E operation W of
        (Inr (result, duration'), W') \<Rightarrow>
          (let taskResult = createTaskResult task COMPLETED result duration' None in
           (Inr taskResult, a\<lparr>this_testResults := this_testResults a @ [taskResult]\<rparr>, W'))
      | (Inl err, W') \<Rightarrow>
          (case error_text err of
             Inl e \<Rightarrow> (Inl e, a, W')
           | Inr message \<Rightarrow>
               (let taskResult = createTaskResult task FAILED '''' 0 (Some message) in
                (Inr taskResult, a\<lparr>this_testResults := this_testResults a @ [taskResult]\<rparr>,
                 W'))))"

definition APIAgent_executeTask ::
  "('c, 'x) env \<Rightarrow> agent \<Rightarrow> string \<Rightarrow> 'c \<Rightarrow> 'x world \<Rightarrow> (thrown + TaskResult) \<times> agent \<times> 'x world" where
  "APIAgent_executeTask E a task ctx W =
     executeTask_push E (APIAgent_operation E task ctx) a task W"

definition WireMockAgent_executeTask ::
  "('c, 'x) env \<Rightarrow> agent \<Rightarrow> string \<Rightarrow> 'c \<Rightarrow> 'x world \<Rightarrow> (thrown + TaskResult) \<times> agent \<times> 'x world" where
  "WireMockAgent_executeTask E a task ctx W =
     executeTask_push E (WireMockAgent_operation E task ctx) a task W"

definition HeadSpinAgent_executeTask ::
  "('c, 'x) env \<Rightarrow> agent \<Rightarrow> string \<Rightarrow> 'c \<Rightarrow> 'x world \<Rightarrow> (thrown + TaskResult) \<times> agent \<times> 'x world" where
  "HeadSpinAgent_executeTask E a task ctx W =
     executeTask_push E (HeadSpinAgent_operation E task ctx) a task W"

text \<open>
  \<open>executeTask\<close> of \<open>MobileAgent\<close>: its \<open>catch\<close> block converts the thrown value (an
  argument of \<open>createTaskResult\<close>, evaluated before the push), pushes the FAILED result
  and returns \<open>this.testResults[this.testResults.length - 1]\<close>, the last element of the
  array it has just pushed to.
\<close>

definition MobileAgent_executeTask ::
  "('c, 'x) env \<Rightarrow> agent \<Rightarrow> string \<Rightarrow> 'c \<Rightarrow> 'x world \<Rightarrow> (thrown + TaskResult) \<times> agent \<times> 'x world" where
  "MobileAgent_executeTask E a task ctx W =
     (case measureExecutionTime E (MobileAgent_operation E task ctx) W of
        (Inr (result, duration'), W') \<Rightarrow>
          (let taskResult = createTaskResult task COMPLETED result duration' None in
           (Inr taskResult, a\<lparr>this_testResults := this_testResults a @ [taskResult]\<rparr>, W'))
      | (Inl err, W') \<Rightarrow>
          (case error_text err of
             Inl e \<Rightarrow> (Inl e, a, W')
           | Inr message \<Rightarrow>
               (let after_push = this_testResults a @
                      [createTaskResult task FAILED '''' 0 (Some message)] in
                (Inr (last after_push), a\<lparr>this_testResults := after_push\<rparr>, W'))))"

text \<open>The method call \<open>agent.executeTask(task, context)\<close>: the class of the object selects the body.\<close>

definition executeTask ::
  "('c, 'x) env \<Rightarrow> agent \<Rightarrow> string \<Rightarrow> 'c \<Rightarrow> 'x world \<Rightarrow> (thrown + TaskResult) \<times> agent \<times> 'x world" where
  "executeTask E a task ctx W =
     (case cls a of
        APIAgent \<Rightarrow> APIAgent_executeTask E a task ctx W
      | MobileAgent \<Rightarrow> MobileAgent_executeTask E a task ctx W
      | WireMockAgent \<Rightarrow> WireMockAgent_executeTask E a task ctx W
      | HeadSpinAgent \<Rightarrow> HeadSpinAgent_executeTask E a task ctx W)"

text \<open>The task names the \<open>switch\<close> of each class has a \<open>case\<close> for.\<close>

definition recognized :: "agent_class \<Rightarrow> string list" where
  "recognized c =
     (case c of
        APIAgent \<Rightarrow> [''postman_tests'', ''api_validation'']
      | MobileAgent \<Rightarrow> [''appium_tests'', ''webdriver_tests'']
      | WireMockAgent \<Rightarrow> [''wiremock_tests'', ''mock_validation'']
      | HeadSpinAgent \<Rightarrow> [''headspin_ios_smoke''])"

text \<open>
  \<open>generateReport\<close>, whose body is the same text in all four classes. It returns the
  report together with the agent object as the call leaves it.
\<close>

definition generateReport :: "agent \<Rightarrow> AgentReport \<times> agent" where
  "generateReport a =
     (let totalTests' = int (length (this_testResults a));
          passedTests' = int (length (filter (\<lambda>r. status r = COMPLETED) (this_testResults a)))
      in (\<lparr>agentType = this_agentType a, totalTests = totalTests', passedTests = passedTests',
           failedTests = totalTests' - passedTests', testResults = this_testResults a\<rparr>, a))"


section \<open>ReportGenerator\<close>

definition default_outputDir :: string where
  "default_outputDir = ''pipeline-reports''"

text \<open>
  \<open>generateAllureReport\<close>: creates the directory, names the file after \<open>Date.now()\<close>,
  builds the summary (its timestamp is a second reading of the clock, \<open>new Date()\<close>)
  and writes it; returns the path. A rejection of \<open>fs.mkdir\<close> or \<open>fs.writeFile\<close> is not
  caught.
\<close>

definition generateAllureReport ::
  "('c, 'x) env \<Rightarrow> TaskResult list \<Rightarrow> string \<Rightarrow> 'x world \<Rightarrow> (thrown + string) \<times> 'x world" where
  "generateAllureReport E testResults' outputDir W =
     (case fs_mkdir E outputDir W of
        (Inl e, W1) \<Rightarrow> (Inl e, W1)
      | (Inr _, W1) \<Rightarrow>
          (let (now, W2) = dateNow E W1;
               filePath = path_join E outputDir (''allure-report-'' @ show_nat now @ ''.json'');
               (date, W3) = dateNow E W2;
               data = \<lparr>data_timestamp = toISOString E date,
                       data_totalTests = int (length testResults'),
                       passed = int (length (filter (\<lambda>r. status r = COMPLETED) testResults')),
                       failed = int (length (filter (\<lambda>r. status r = FAILED) testResults')),
                       results = testResults'\<rparr>
           in case fs_writeFile E filePath data W3 of
                (Inl e, W4) \<Rightarrow> (Inl e, W4)
              | (Inr _, W4) \<Rightarrow> (Inr filePath, W4)))"

definition no_issues_message :: string where
  "no_issues_message = ''No issues to sync with Jira/Zephyr - all tests passed!''"

definition synced_message :: "nat \<Rightarrow> string" where
  "synced_message n = ''Mock: Synced '' @ show_nat n @ '' failed test(s) with Jira.''"

text \<open>
  \<open>syncWithZephyrJira\<close>: filters the FAILED results, waits 150 ms, and answers with the
  count when it is not zero.
\<close>

definition syncWithZephyrJira ::
  "('c, 'x) env \<Rightarrow> TaskResult list \<Rightarrow> 'x world \<Rightarrow> (thrown + string) \<times> 'x world" where
  "syncWithZephyrJira E testResults' W =
     (let failed' = filter (\<lambda>r. status r = FAILED) testResults';
          W1 = delay E 150 W
      in if length failed' \<noteq> 0 then (Inr (synced_message (length failed')), W1)
         else (Inr no_issues_message, W1))"

section \<open>MCPAgentOrchestrator\<close>

text \<open>
  The orchestrator object: \<open>agents\<close> is a \<open>Record\<close> from agent name to agent object, an
  association list in insertion order. \<open>reportGenerator\<close> has no fields.
\<close>

record orchestrator =
  agents :: "(string \<times> agent) list"

definition new_MCPAgentOrchestrator :: orchestrator where
  "new_MCPAgentOrchestrator =
     \<lparr>agents = [(''api_agent'', new_APIAgent), (''mobile_agent'', new_MobileAgent),
                (''wiremock_agent'', new_WireMockAgent)]\<rparr>"

text \<open>
  \<open>getTasksForEvent\<close>: the three \<open>case\<close> labels and \<open>default\<close> fall through to one \<open>return\<close>.
\<close>

definition getTasksForEvent :: "CIPipelineEvent \<Rightarrow> (string \<times> string list) list" where
  "getTasksForEvent ev =
     (let table = [(''api_agent'', [''postman_tests'', ''api_validation'']),
                   (''mobile_agent'', [''appium_tests'', ''webdriver_tests'']),
                   (''wiremock_agent'', [''wiremock_tests'', ''wiremock_tests''])]
      in case eventType ev of
           CI_EVENT \<Rightarrow> table
         | PR_EVENT \<Rightarrow> table
         | DEV_EVENT \<Rightarrow> table)"

definition getPipelineStatus :: "TaskResult list \<Rightarrow> string" where
  "getPipelineStatus taskResults' =
     (if list_ex (\<lambda>r. status r = FAILED) taskResults' then ''FAILED''
      else if list_all (\<lambda>r. status r = COMPLETED) taskResults' then ''SUCCESS''
      else ''INCOMPLETE'')"

text \<open>The context object \<open>processEvent\<close> builds for every task.\<close>

record task_context =
  ctx_event :: CIPipelineEvent
  ctx_branch :: string
  commit :: string
  ctx_timestamp :: nat

definition make_context :: "CIPipelineEvent \<Rightarrow> task_context" where
  "make_context ev =
     \<lparr>ctx_event = ev, ctx_branch = branch ev, commit = commitHash ev,
      ctx_timestamp = timestamp ev\<rparr>"

text \<open>
  The inner loop \<open>for (const task of agentTasks)\<close> on the object \<open>this.agents[agentName]\<close>,
  which is \<open>undefined\<close> (\<open>None\<close>) for a name that is not registered: then
  \<open>agent.executeTask\<close> throws a TypeError at the first task. The loop awaits each call
  and pushes its result; a rejected call leaves the loop and \<open>processEvent\<close>, which has
  no \<open>try\<close> around it.
\<close>

definition undefined_agent_error :: thrown where
  "undefined_agent_error =
     ErrorObject ''Cannot read properties of undefined (reading 'executeTask')''"

fun agent_loop ::
  "(task_context, 'x) env \<Rightarrow> CIPipelineEvent \<Rightarrow> agent option \<Rightarrow> string list \<Rightarrow> TaskResult list
     \<Rightarrow> 'x world \<Rightarrow> (thrown + TaskResult list) \<times> agent option \<times> 'x world" where
  "agent_loop E ev ag [] allResults W = (Inr allResults, ag, W)"
| "agent_loop E ev None (task # agentTasks) allResults W = (Inl undefined_agent_error, None, W)"
| "agent_loop E ev (Some a) (task # agentTasks) allResults W =
     (case executeTask E a task (make_context ev) W of
        (Inl e, a', W') \<Rightarrow> (Inl e, Some a', W')
      | (Inr result, a', W') \<Rightarrow> agent_loop E ev (Some a') agentTasks (allResults @ [result]) W')"

text \<open>The agent objects are mutated in place: the loop's agent is stored back under its name.\<close>

definition store_agent :: "string \<Rightarrow> agent option \<Rightarrow> orchestrator \<Rightarrow> orchestrator" where
  "store_agent agentName ag orch =
     (case ag of
        None \<Rightarrow> orch
      | Some a \<Rightarrow>
          orch\<lparr>agents := map (\<lambda>(n, b). if n = agentName then (n, a) else (n, b)) (agents orch)\<rparr>)"

text \<open>The outer loop \<open>for (const [agentName, agentTasks] of Object.entries(tasksByAgent))\<close>.\<close>

fun entries_loop ::
  "(task_context, 'x) env \<Rightarrow> CIPipelineEvent \<Rightarrow> (string \<times> string list) list \<Rightarrow> orchestrator
     \<Rightarrow> TaskResult list \<Rightarrow> 'x world \<Rightarrow> (thrown + TaskResult list) \<times> orchestrator \<times> 'x world" where
  "entries_loop E ev [] orch allResults W = (Inr allResults, orch, W)"
| "entries_loop E ev ((agentName, agentTasks) # others) orch allResults W =
     (case agent_loop E ev (map_of (agents orch) agentName) agentTasks allResults W of
        (Inl e, ag, W') \<Rightarrow> (Inl e, store_agent agentName ag orch, W')
      | (Inr allResults', ag, W') \<Rightarrow>
          entries_loop E ev others (store_agent agentName ag orch) allResults' W')"

text \<open>The loop gathering \<open>agentReports[name] = await agent.generateReport()\<close>.\<close>

fun gather_reports ::
  "(string \<times> agent) list \<Rightarrow> (string \<times> AgentReport) list \<times> (string \<times> agent) list" where
  "gather_reports [] = ([], [])"
| "gather_reports ((n, a) # others) =
     (let (report, a') = generateReport a;
          (reports, others') = gather_reports others
      in ((n, report) # reports, (n, a') # others'))"

text \<open>
  \<open>processEvent\<close>. The first component is the settled promise. The two report calls run
  under \<open>Promise.all\<close>: both are started, \<open>syncWithZephyrJira\<close> neither reads nor writes
  what \<open>generateAllureReport\<close> does, and the combined promise rejects when one of them
  rejects. The \<open>console.log\<close> calls are left out.
\<close>

definition processEvent ::
  "(task_context, 'x) env \<Rightarrow> orchestrator \<Rightarrow> CIPipelineEvent \<Rightarrow> 'x world
     \<Rightarrow> (thrown + PipelineResult) \<times> orchestrator \<times> 'x world" where
  "processEvent E orch ev W =
     (let tasksByAgent = getTasksForEvent ev in
      case entries_loop E ev tasksByAgent orch [] W of
        (Inl e, orch1, W1) \<Rightarrow> (Inl e, orch1, W1)
      | (Inr allResults, orch1, W1) \<Rightarrow>
          (let (allure, W2) = generateAllureReport E allResults default_outputDir W1;
               (jira, W3) = syncWithZephyrJira E allResults W2
           in case allure of
                Inl e \<Rightarrow> (Inl e, orch1, W3)
              | Inr allureReport \<Rightarrow>
                  (case jira of
                     Inl e \<Rightarrow> (Inl e, orch1, W3)
                   | Inr jiraSyncResult \<Rightarrow>
                       (let (agentReports', agents') = gather_reports (agents orch1) in
                        (Inr \<lparr>event = ev, taskResults = allResults,
                              agentReports = agentReports',
                              generatedReports = [allureReport, jiraSyncResult],
                              pipelineStatus = getPipelineStatus allResults\<rparr>,
                         orch1\<lparr>agents := agents'\<rparr>, W3)))))"

section \<open>A simulated outside world\<close>

text \<open>
  An outside world to run the model in: \<open>rest\<close> is the clock in milliseconds. Every
  reading of the clock advances it by \<open>tick\<close>, a timer advances it by its length, every
  task body answers \<open>body task\<close> for its task name, \<open>fs.mkdir\<close> succeeds and
  \<open>fs.writeFile\<close> rejects with \<open>wfault\<close> when there is one. \<open>path.join\<close> is the one of
  POSIX on a plain directory name and a plain file name: the two with a separator
  between them.
\<close>

definition sim_env :: "nat \<Rightarrow> thrown option \<Rightarrow> (string \<Rightarrow> thrown + string) \<Rightarrow> ('c, nat) env" where
  "sim_env tick wfault body =
     \<lparr>dateNow = (\<lambda>W. (rest W, W\<lparr>rest := rest W + tick\<rparr>)),
      runPostmanTests = (\<lambda>c W. (body ''postman_tests'', W)),
      validateApiEndpoints = (\<lambda>c W. (body ''api_validation'', W)),
      runAppiumTests = (\<lambda>c W. (body ''appium_tests'', W)),
      runWebDriverTests = (\<lambda>c W. (body ''webdriver_tests'', W)),
      runWiremockTests = (\<lambda>c W. (body ''wiremock_tests'', W)),
      validateWiremocks = (\<lambda>c W. (body ''mock_validation'', W)),
      runHeadSpinIOSSmokeTest = (\<lambda>W. (body ''headspin_ios_smoke'', W)),
      mkdir_fault = (\<lambda>dir W. None),
      writeFile_fault = (\<lambda>p W. wfault),
      toISOString = show_nat,
      delay = (\<lambda>ms W. W\<lparr>rest := rest W + ms\<rparr>),
      path_join = (\<lambda>dir file. dir @ ''/'' @ file)\<rparr>"

definition sim_world :: "nat \<Rightarrow> nat world" where
  "sim_world t = \<lparr>files = Map.empty, rest = t\<rparr>"

definition all_pass :: "string \<Rightarrow> thrown + string" where
  "all_pass task = Inr (''ok: '' @ task)"

definition boom_on :: "string \<Rightarrow> string \<Rightarrow> thrown + string" where
  "boom_on bad task = (if task = bad then Inl (ErrorObject ''boom'') else Inr (''ok: '' @ task))"

text \<open>The task bodies of which the one for \<open>bad\<close> throws the value \<open>v\<close>.\<close>

definition throw_on :: "string \<Rightarrow> thrown \<Rightarrow> string \<Rightarrow> thrown + string" where
  "throw_on bad v task = (if task = bad then Inl v else Inr (''ok: '' @ task))"

text \<open>
  What \<open>throw Object.create(null)\<close> throws: an object with no \<open>toString\<close>, on which
  \<open>String\<close> throws a TypeError.
\<close>

definition null_prototype_object :: thrown where
  "null_prototype_object =
     Unconvertible (ErrorObject ''Cannot convert object to primitive value'')"

definition ci_event :: CIPipelineEvent where
  "ci_event = \<lparr>eventType = CI_EVENT, timestamp = 1700000000000, branch = ''main'',
     commitHash = ''123abc'', author = ''CI Bot'', metadata = []\<rparr>"

section \<open>Notions used to state the properties\<close>

text \<open>The operation that \<open>executeTask\<close> of an object of the given class measures.\<close>

definition class_operation ::
  "('c, 'x) env \<Rightarrow> agent_class \<Rightarrow> string \<Rightarrow> 'c \<Rightarrow> 'x world \<Rightarrow> (thrown + string) \<times> 'x world" where
  "class_operation E c task ctx W =
     (case c of
        APIAgent \<Rightarrow> APIAgent_operation E task ctx W
      | MobileAgent \<Rightarrow> MobileAgent_operation E task ctx W
      | WireMockAgent \<Rightarrow> WireMockAgent_operation E task ctx W
      | HeadSpinAgent \<Rightarrow> HeadSpinAgent_operation E task ctx W)"

text \<open>
  An outcome of a task body that the \<open>catch\<close> block of \<open>executeTask\<close> can handle: the
  body returned, or it threw an \<open>Error\<close> or a value that \<open>String\<close> converts.
\<close>

fun handled :: "(thrown + string) \<times> 'w \<Rightarrow> bool" where
  "handled (Inr out, W) = True"
| "handled (Inl (ErrorObject message), W) = True"
| "handled (Inl (OtherValue s), W) = True"
| "handled (Inl (Unconvertible e), W) = False"

text \<open>
  The five task bodies that the task table of \<open>getTasksForEvent\<close> reaches throw, in the
  given context, nothing but \<open>Error\<close> objects and values that \<open>String\<close> converts. The
  task bodies of the source are of this kind in the context \<open>processEvent\<close> builds, which
  has none of the fields they read: \<open>runPostmanTests\<close> and \<open>runWiremockTests\<close> catch
  what their \<open>try\<close> block throws (the \<open>Error\<close> of \<open>execSync\<close>) and throw a \<open>new Error\<close>
  with its message, and the other three loop over their default lists of strings and
  throw nothing.
\<close>

definition dispatched_bodies_throw_handled :: "('c, 'x) env \<Rightarrow> 'c \<Rightarrow> bool" where
  "dispatched_bodies_throw_handled E ctx =
     (\<forall>W. handled (runPostmanTests E ctx W) \<and> handled (validateApiEndpoints E ctx W) \<and>
          handled (runAppiumTests E ctx W) \<and> handled (runWebDriverTests E ctx W) \<and>
          handled (runWiremockTests E ctx W))"

text \<open>
  An orchestrator with the three agent names of its constructor bound to the given agent
  objects. Every orchestrator starts as
  \<open>wired new_APIAgent new_MobileAgent new_WireMockAgent\<close>.
\<close>

definition wired :: "agent \<Rightarrow> agent \<Rightarrow> agent \<Rightarrow> orchestrator" where
  "wired a m w =
     \<lparr>agents = [(''api_agent'', a), (''mobile_agent'', m), (''wiremock_agent'', w)]\<rparr>"

section \<open>Lemmas\<close>

lemmas show_nat_eval = show_nat.simps digit_char_def

lemmas sim_defs = sim_env_def sim_world_def all_pass_def boom_on_def throw_on_def
  null_prototype_object_def ci_event_def
  new_MCPAgentOrchestrator_def new_APIAgent_def new_MobileAgent_def new_WireMockAgent_def
  new_HeadSpinAgent_def

lemmas run_defs = processEvent_def getTasksForEvent_def make_context_def store_agent_def
  executeTask_def APIAgent_executeTask_def MobileAgent_executeTask_def
  WireMockAgent_executeTask_def HeadSpinAgent_executeTask_def executeTask_push_def
  APIAgent_operation_def MobileAgent_operation_def WireMockAgent_operation_def
  HeadSpinAgent_operation_def measureExecutionTime_def createTaskResult_def
  generateAllureReport_def fs_mkdir_def fs_writeFile_def default_outputDir_def
  syncWithZephyrJira_def generateReport_def getPipelineStatus_def Let_def

subsection \<open>One call of executeTask\<close>

lemma class_operation_simps:
  "class_operation E APIAgent task ctx = APIAgent_operation E task ctx"
  "class_operation E MobileAgent task ctx = MobileAgent_operation E task ctx"
  "class_operation E WireMockAgent task ctx = WireMockAgent_operation E task ctx"
  "class_operation E HeadSpinAgent task ctx = HeadSpinAgent_operation E task ctx"
  by (rule ext, simp add: class_operation_def)+

text \<open>The four \<open>executeTask\<close> bodies do the same with the operation of their class.\<close>

lemma executeTask_eq:
  "executeTask E a task ctx W =
     (case measureExecutionTime E (class_operation E (cls a) task ctx) W of
        (Inr (result, d), W') \<Rightarrow>
          (Inr (createTaskResult task COMPLETED result d None),
           a\<lparr>this_testResults :=
               this_testResults a @ [createTaskResult task COMPLETED result d None]\<rparr>, W')
      | (Inl err, W') \<Rightarrow>
          (case error_text err of
             Inl e \<Rightarrow> (Inl e, a, W')
           | Inr message \<Rightarrow>
               (Inr (createTaskResult task FAILED '''' 0 (Some message)),
                a\<lparr>this_testResults :=
                    this_testResults a @ [createTaskResult task FAILED '''' 0 (Some message)]\<rparr>,
                W')))"
  by (cases "cls a")
    (simp_all add: executeTask_def class_operation_simps APIAgent_executeTask_def
      MobileAgent_executeTask_def WireMockAgent_executeTask_def HeadSpinAgent_executeTask_def
      executeTask_push_def Let_def split: prod.splits sum.splits)

text \<open>A call resolves with a terminal result when the outcome of the operation is handled.\<close>

lemma executeTask_resolves_ex:
  assumes "handled (class_operation E (cls a) task ctx (snd (dateNow E W)))"
  shows "\<exists>r W'. executeTask E a task ctx W =
             (Inr r, a\<lparr>this_testResults := this_testResults a @ [r]\<rparr>, W') \<and>
           taskName r = task \<and> (status r = COMPLETED \<or> status r = FAILED)"
proof -
  obtain t0 W1 where d: "dateNow E W = (t0, W1)"
    by (cases "dateNow E W")
  obtain outcome W2 where op: "class_operation E (cls a) task ctx W1 = (outcome, W2)"
    by (cases "class_operation E (cls a) task ctx W1")
  show ?thesis
  proof (cases outcome)
    case (Inr out)
    obtain t1 W3 where d2: "dateNow E W2 = (t1, W3)"
      by (cases "dateNow E W2")
    show ?thesis
      by (simp add: executeTask_eq measureExecutionTime_def d op Inr d2 createTaskResult_def)
  next
    case (Inl err)
    with assms d op have "handled (Inl err, W2)" by simp
    then obtain message where "error_text err = Inr message"
      by (cases err) simp_all
    then show ?thesis
      by (simp add: executeTask_eq measureExecutionTime_def d op Inl createTaskResult_def)
  qed
qed

lemma executeTask_resolves:
  assumes "handled (class_operation E (cls a) task ctx (snd (dateNow E W)))"
  obtains r W' where
    "executeTask E a task ctx W =
       (Inr r, a\<lparr>this_testResults := this_testResults a @ [r]\<rparr>, W')" and
    "taskName r = task" and "status r = COMPLETED \<or> status r = FAILED"
  using executeTask_resolves_ex [OF assms] by blast


lemma unknown_task_operation:
  "task \<notin> set (recognized c) \<Longrightarrow>
     class_operation E c task ctx W = (Inl (ErrorObject (''Unknown task: '' @ task)), W)"
  by (cases c)
    (simp_all add: recognized_def class_operation_def APIAgent_operation_def
      MobileAgent_operation_def WireMockAgent_operation_def HeadSpinAgent_operation_def)

text \<open>The recognized task names are the ones that reach a task body.\<close>

lemma recognized_task_operation:
  "class_operation E APIAgent ''postman_tests'' ctx W = runPostmanTests E ctx W"
  "class_operation E APIAgent ''api_validation'' ctx W = validateApiEndpoints E ctx W"
  "class_operation E MobileAgent ''appium_tests'' ctx W = runAppiumTests E ctx W"
  "class_operation E MobileAgent ''webdriver_tests'' ctx W = runWebDriverTests E ctx W"
  "class_operation E WireMockAgent ''wiremock_tests'' ctx W = runWiremockTests E ctx W"
  "class_operation E WireMockAgent ''mock_validation'' ctx W = validateWiremocks E ctx W"
  "class_operation E HeadSpinAgent ''headspin_ios_smoke'' ctx W = runHeadSpinIOSSmokeTest E W"
  by (simp_all add: class_operation_def APIAgent_operation_def
      MobileAgent_operation_def WireMockAgent_operation_def HeadSpinAgent_operation_def)

lemma handled_dispatched:
  assumes "dispatched_bodies_throw_handled E ctx"
  shows "handled (class_operation E APIAgent ''postman_tests'' ctx W)"
    and "handled (class_operation E APIAgent ''api_validation'' ctx W)"
    and "handled (class_operation E MobileAgent ''appium_tests'' ctx W)"
    and "handled (class_operation E MobileAgent ''webdriver_tests'' ctx W)"
    and "handled (class_operation E WireMockAgent ''wiremock_tests'' ctx W)"
  using assms
  by (simp_all add: dispatched_bodies_throw_handled_def recognized_task_operation)

lemma executeTask_resolves_class:
  assumes "\<And>W'. handled (class_operation E (cls a) task ctx W')"
  obtains r a' W' where
    "executeTask E a task ctx W = (Inr r, a', W')" and "cls a' = cls a" and
    "taskName r = task" and "status r = COMPLETED \<or> status r = FAILED"
proof -
  obtain r W' where
    "executeTask E a task ctx W =
       (Inr r, a\<lparr>this_testResults := this_testResults a @ [r]\<rparr>, W')" and
    "taskName r = task" and "status r = COMPLETED \<or> status r = FAILED"
    by (rule executeTask_resolves [OF assms])
  then show thesis
    using that [of r "a\<lparr>this_testResults := this_testResults a @ [r]\<rparr>" W'] by simp
qed


subsection \<open>Decimal texts and messages\<close>

lemma show_nat_nonempty: "show_nat n \<noteq> []"
  by (subst show_nat.simps) simp

lemma digit_char_inj: "m < 10 \<Longrightarrow> n < 10 \<Longrightarrow> digit_char m = digit_char n \<Longrightarrow> m = n"
proof -
  assume "m < 10" and "n < 10" and "digit_char m = digit_char n"
  moreover have "distinct ''0123456789''" by simp
  ultimately show "m = n"
    by (simp add: digit_char_def nth_eq_iff_index_eq)
qed

lemma show_nat_inj: "show_nat m = show_nat n \<Longrightarrow> m = n"
proof (induction m arbitrary: n rule: show_nat.induct)
  case (1 m)
  show ?case
  proof (cases "m < 10")
    case small_m: True
    show ?thesis
    proof (cases "n < 10")
      case True
      with small_m "1.prems" show ?thesis
        by (simp add: show_nat.simps [of m] show_nat.simps [of n] digit_char_inj)
    next
      case False
      with small_m "1.prems" show_nat_nonempty [of "n div 10"] show ?thesis
        by (simp add: show_nat.simps [of m] show_nat.simps [of n])
    qed
  next
    case big_m: False
    show ?thesis
    proof (cases "n < 10")
      case True
      with big_m "1.prems" show_nat_nonempty [of "m div 10"] show ?thesis
        by (simp add: show_nat.simps [of m] show_nat.simps [of n])
    next
      case False
      with big_m "1.prems" have
        pre: "show_nat (m div 10) = show_nat (n div 10)" and
        dig: "digit_char (m mod 10) = digit_char (n mod 10)"
        by (simp_all add: show_nat.simps [of m] show_nat.simps [of n])
      from "1.IH" [OF big_m pre] have "m div 10 = n div 10" .
      moreover from dig have "m mod 10 = n mod 10"
        by (intro digit_char_inj) simp_all
      ultimately show ?thesis
        by (metis div_mult_mod_eq)
    qed
  qed
qed

lemma synced_ne_no_issues: "synced_message n \<noteq> no_issues_message"
  by (simp add: synced_message_def no_issues_message_def)

lemma synced_message_inj: "synced_message m = synced_message n \<Longrightarrow> m = n"
  by (simp add: synced_message_def show_nat_inj)

lemma syncWithZephyrJira_eq:
  "syncWithZephyrJira E rs W =
     (Inr (if \<exists>r \<in> set rs. status r = FAILED
           then synced_message (length (filter (\<lambda>r. status r = FAILED) rs))
           else no_issues_message), delay E 150 W)"
  by (auto simp: syncWithZephyrJira_def Let_def filter_empty_conv)

subsection \<open>The report file\<close>

text \<open>
  A call of \<open>generateAllureReport\<close> that resolves returns the path \<open>path.join\<close> makes of
  the directory and the file name with the clock reading, and has written there the
  summary of the results it was given.
\<close>

lemma generateAllureReport_resolved:
  assumes "generateAllureReport E rs dir W = (Inr p, W')"
  shows "p = path_join E dir (''allure-report-'' @ show_nat (fst (dateNow E W)) @ ''.json'') \<and>
     (\<exists>d. files W' p = Some d \<and> data_totalTests d = int (length rs) \<and> results d = rs)"
  using assms
  by (auto simp: generateAllureReport_def fs_mkdir_def fs_writeFile_def Let_def
      split: option.splits prod.splits sum.splits)

text \<open>\<open>generateAllureReport\<close> rejects only with a rejection of \<open>fs.mkdir\<close> or \<open>fs.writeFile\<close>.\<close>

lemma generateAllureReport_rejected:
  assumes "fst (generateAllureReport E rs dir W) = Inl e"
  shows "mkdir_fault E dir W = Some e \<or> (\<exists>p W3. writeFile_fault E p W3 = Some e)"
  using assms
  by (auto simp: generateAllureReport_def fs_mkdir_def fs_writeFile_def Let_def
      split: option.splits prod.splits sum.splits)

subsection \<open>The loops of processEvent\<close>

lemma getTasksForEvent_table:
  "getTasksForEvent ev =
     [(''api_agent'', [''postman_tests'', ''api_validation'']),
      (''mobile_agent'', [''appium_tests'', ''webdriver_tests'']),
      (''wiremock_agent'', [''wiremock_tests'', ''wiremock_tests''])]"
  by (simp add: getTasksForEvent_def Let_def split: EventType.splits)

lemma gather_reports_eq:
  "gather_reports ags = (map (\<lambda>(n, a). (n, fst (generateReport a))) ags, ags)"
  by (induction ags) (auto simp: generateReport_def Let_def)

lemma new_orchestrator_wired:
  "new_MCPAgentOrchestrator = wired new_APIAgent new_MobileAgent new_WireMockAgent"
  by (simp add: new_MCPAgentOrchestrator_def wired_def)

lemma processEvent_after_loop:
  assumes "entries_loop E ev (getTasksForEvent ev) orch [] W = (Inr rs, orch1, W1)"
  shows "processEvent E orch ev W =
     (case generateAllureReport E rs default_outputDir W1 of
        (Inl e, W2) \<Rightarrow> (Inl e, orch1, delay E 150 W2)
      | (Inr p, W2) \<Rightarrow>
          (Inr \<lparr>event = ev, taskResults = rs,
                agentReports = map (\<lambda>(n, a). (n, fst (generateReport a))) (agents orch1),
                generatedReports =
                  [p, if \<exists>r \<in> set rs. status r = FAILED
                      then synced_message (length (filter (\<lambda>r. status r = FAILED) rs))
                      else no_issues_message],
                pipelineStatus = getPipelineStatus rs\<rparr>,
           orch1, delay E 150 W2))"
  using assms
  by (simp add: processEvent_def Let_def syncWithZephyrJira_eq gather_reports_eq
      split: prod.splits sum.splits)

lemma processEvent_loop_rejected:
  assumes "entries_loop E ev (getTasksForEvent ev) orch [] W = (Inl e, orch1, W1)"
  shows "processEvent E orch ev W = (Inl e, orch1, W1)"
  using assms by (simp add: processEvent_def Let_def)

text \<open>
  The two loops on the three registered agents are six calls of \<open>executeTask\<close>, each on
  the agent as the calls before left it and in the world as they left it.
\<close>

lemma entries_loop_six_calls:
  assumes "executeTask E a ''postman_tests'' (make_context ev) W = (Inr r1, a1, W1)"
    and "executeTask E a1 ''api_validation'' (make_context ev) W1 = (Inr r2, a2, W2)"
    and "executeTask E m ''appium_tests'' (make_context ev) W2 = (Inr r3, m1, W3)"
    and "executeTask E m1 ''webdriver_tests'' (make_context ev) W3 = (Inr r4, m2, W4)"
    and "executeTask E w ''wiremock_tests'' (make_context ev) W4 = (Inr r5, w1, W5)"
    and "executeTask E w1 ''wiremock_tests'' (make_context ev) W5 = (Inr r6, w2, W6)"
  shows "entries_loop E ev (getTasksForEvent ev) (wired a m w) [] W =
       (Inr [r1, r2, r3, r4, r5, r6], wired a2 m2 w2, W6)"
  using assms by (simp add: getTasksForEvent_table wired_def store_agent_def)

text \<open>A call that rejects ends the loops, and \<open>processEvent\<close> rejects with what it threw.\<close>

lemma entries_loop_first_call_rejects:
  assumes "executeTask E a ''postman_tests'' (make_context ev) W = (Inl e, a1, W1)"
  shows "entries_loop E ev (getTasksForEvent ev) (wired a m w) [] W =
       (Inl e, wired a1 m w, W1)"
  using assms by (simp add: getTasksForEvent_table wired_def store_agent_def)

lemma six_calls_resolve:
  assumes ca: "cls a = APIAgent" and cm: "cls m = MobileAgent" and cw: "cls w = WireMockAgent"
    and H: "dispatched_bodies_throw_handled E (make_context ev)"
  obtains r1 a1 W1 r2 a2 W2 r3 m1 W3 r4 m2 W4 r5 w1 W5 r6 w2 W6 where
    "executeTask E a ''postman_tests'' (make_context ev) W = (Inr r1, a1, W1)" and
    "executeTask E a1 ''api_validation'' (make_context ev) W1 = (Inr r2, a2, W2)" and
    "executeTask E m ''appium_tests'' (make_context ev) W2 = (Inr r3, m1, W3)" and
    "executeTask E m1 ''webdriver_tests'' (make_context ev) W3 = (Inr r4, m2, W4)" and
    "executeTask E w ''wiremock_tests'' (make_context ev) W4 = (Inr r5, w1, W5)" and
    "executeTask E w1 ''wiremock_tests'' (make_context ev) W5 = (Inr r6, w2, W6)" and
    "map taskName [r1, r2, r3, r4, r5, r6] =
       [''postman_tests'', ''api_validation'', ''appium_tests'', ''webdriver_tests'',
        ''wiremock_tests'', ''wiremock_tests'']" and
    "\<forall>r \<in> set [r1, r2, r3, r4, r5, r6]. status r = COMPLETED \<or> status r = FAILED"
proof -
  let ?c = "make_context ev"
  note hd = handled_dispatched [OF H]
  have k1: "\<And>W'. handled (class_operation E (cls a) ''postman_tests'' ?c W')"
    by (simp add: ca hd)
  obtain r1 a1 W1 where s1: "executeTask E a ''postman_tests'' ?c W = (Inr r1, a1, W1)"
    and c1: "cls a1 = cls a"
    and t1: "taskName r1 = ''postman_tests''" "status r1 = COMPLETED \<or> status r1 = FAILED"
    by (rule executeTask_resolves_class [OF k1])
  have k2: "\<And>W'. handled (class_operation E (cls a1) ''api_validation'' ?c W')"
    by (simp add: c1 ca hd)
  obtain r2 a2 W2 where s2: "executeTask E a1 ''api_validation'' ?c W1 = (Inr r2, a2, W2)"
    and c2: "cls a2 = cls a1"
    and t2: "taskName r2 = ''api_validation''" "status r2 = COMPLETED \<or> status r2 = FAILED"
    by (rule executeTask_resolves_class [OF k2])
  have k3: "\<And>W'. handled (class_operation E (cls m) ''appium_tests'' ?c W')"
    by (simp add: cm hd)
  obtain r3 m1 W3 where s3: "executeTask E m ''appium_tests'' ?c W2 = (Inr r3, m1, W3)"
    and c3: "cls m1 = cls m"
    and t3: "taskName r3 = ''appium_tests''" "status r3 = COMPLETED \<or> status r3 = FAILED"
    by (rule executeTask_resolves_class [OF k3])
  have k4: "\<And>W'. handled (class_operation E (cls m1) ''webdriver_tests'' ?c W')"
    by (simp add: c3 cm hd)
  obtain r4 m2 W4 where s4: "executeTask E m1 ''webdriver_tests'' ?c W3 = (Inr r4, m2, W4)"
    and c4: "cls m2 = cls m1"
    and t4: "taskName r4 = ''webdriver_tests''" "status r4 = COMPLETED \<or> status r4 = FAILED"
    by (rule executeTask_resolves_class [OF k4])
  have k5: "\<And>W'. handled (class_operation E (cls w) ''wiremock_tests'' ?c W')"
    by (simp add: cw hd)
  obtain r5 w1 W5 where s5: "executeTask E w ''wiremock_tests'' ?c W4 = (Inr r5, w1, W5)"
    and c5: "cls w1 = cls w"
    and t5: "taskName r5 = ''wiremock_tests''" "status r5 = COMPLETED \<or> status r5 = FAILED"
    by (rule executeTask_resolves_class [OF k5])
  have k6: "\<And>W'. handled (class_operation E (cls w1) ''wiremock_tests'' ?c W')"
    by (simp add: c5 cw hd)
  obtain r6 w2 W6 where s6: "executeTask E w1 ''wiremock_tests'' ?c W5 = (Inr r6, w2, W6)"
    and c6: "cls w2 = cls w1"
    and t6: "taskName r6 = ''wiremock_tests''" "status r6 = COMPLETED \<or> status r6 = FAILED"
    by (rule executeTask_resolves_class [OF k6])
  have "map taskName [r1, r2, r3, r4, r5, r6] =
       [''postman_tests'', ''api_validation'', ''appium_tests'', ''webdriver_tests'',
        ''wiremock_tests'', ''wiremock_tests'']"
    using t1 t2 t3 t4 t5 t6 by simp
  moreover have "\<forall>r \<in> set [r1, r2, r3, r4, r5, r6]. status r = COMPLETED \<or> status r = FAILED"
    using t1 t2 t3 t4 t5 t6 by simp
  ultimately show thesis
    using s1 s2 s3 s4 s5 s6 by (rule that [rotated 6])
qed

lemma agents_wired:
  "agents (wired a m w) = [(''api_agent'', a), (''mobile_agent'', m), (''wiremock_agent'', w)]"
  by (simp add: wired_def)

text \<open>\<open>executeTask\<close> rejects exactly when the operation throws a value it cannot convert.\<close>

lemma executeTask_rejects_iff:
  "fst (executeTask E a task ctx W) = Inl e \<longleftrightarrow>
     fst (class_operation E (cls a) task ctx (snd (dateNow E W))) = Inl (Unconvertible e)"
proof -
  obtain t0 W1 where d: "dateNow E W = (t0, W1)"
    by (cases "dateNow E W")
  obtain outcome W2 where op: "class_operation E (cls a) task ctx W1 = (outcome, W2)"
    by (cases "class_operation E (cls a) task ctx W1")
  show ?thesis
  proof (cases outcome)
    case (Inr out)
    then show ?thesis
      by (simp add: executeTask_eq measureExecutionTime_def d op split: prod.splits)
  next
    case (Inl err)
    then show ?thesis
      by (cases err) (simp_all add: executeTask_eq measureExecutionTime_def d op)
  qed
qed

section \<open>The claims\<close>

subsection \<open>C1: status aggregation\<close>

text \<open>
  C1. For every list of TaskResults, \<open>getPipelineStatus\<close> returns \<open>'FAILED'\<close> exactly when
  some result has status FAILED, \<open>'SUCCESS'\<close> exactly when every result has status
  COMPLETED, and \<open>'INCOMPLETE'\<close> exactly in the remaining case.
\<close>

theorem getPipelineStatus_aggregation:
  "(getPipelineStatus rs = ''FAILED'' \<longleftrightarrow> (\<exists>r \<in> set rs. status r = FAILED)) \<and>
   (getPipelineStatus rs = ''SUCCESS'' \<longleftrightarrow> (\<forall>r \<in> set rs. status r = COMPLETED)) \<and>
   (getPipelineStatus rs = ''INCOMPLETE'' \<longleftrightarrow>
      \<not> (\<exists>r \<in> set rs. status r = FAILED) \<and> \<not> (\<forall>r \<in> set rs. status r = COMPLETED))"
  by (auto simp: getPipelineStatus_def list_ex_iff list_all_iff)

theorem getPipelineStatus_aggregation_witness:
  "getPipelineStatus [createTaskResult ''a'' COMPLETED ''ok'' 1 None,
     createTaskResult ''b'' FAILED '''' 0 (Some ''boom'')] = ''FAILED'' \<and>
   getPipelineStatus [createTaskResult ''a'' COMPLETED ''ok'' 1 None] = ''SUCCESS'' \<and>
   getPipelineStatus [createTaskResult ''a'' COMPLETED ''ok'' 1 None,
     createTaskResult ''c'' RUNNING '''' 0 None] = ''INCOMPLETE''"
  using getPipelineStatus_aggregation [of "[createTaskResult ''a'' COMPLETED ''ok'' 1 None,
      createTaskResult ''b'' FAILED '''' 0 (Some ''boom'')]"]
    getPipelineStatus_aggregation [of "[createTaskResult ''a'' COMPLETED ''ok'' 1 None]"]
    getPipelineStatus_aggregation [of "[createTaskResult ''a'' COMPLETED ''ok'' 1 None,
      createTaskResult ''c'' RUNNING '''' 0 None]"]
  by (simp add: createTaskResult_def)

subsection \<open>C2: executeTask rejects on a thrown value it cannot convert\<close>

text \<open>
  C2 says that \<open>executeTask\<close> never rejects and turns every exception of the task body
  into a FAILED TaskResult. The \<open>catch\<close> block converts the thrown value outside any
  \<open>try\<close>: when the task body \<open>validateApiEndpoints\<close> throws an object with a null
  prototype (its template literal calls the \<open>toString\<close> of an endpoint of the context,
  which can throw anything), \<open>String(error)\<close> throws a TypeError in the \<open>catch\<close> block,
  and \<open>executeTask\<close> of a new \<open>APIAgent\<close> rejects with that TypeError and leaves the
  history of the agent empty.
\<close>

theorem executeTask_rejects_unconvertible:
  "executeTask (sim_env 1 None (throw_on ''api_validation'' null_prototype_object))
     new_APIAgent ''api_validation'' () (sim_world 0) =
   (Inl (ErrorObject ''Cannot convert object to primitive value''), new_APIAgent, sim_world 1)"
  by (simp add: sim_defs run_defs)

subsection \<open>C3: unknown task names\<close>

text \<open>
  C3. For an agent of any class and every task name that is not among the names its
  class recognizes, \<open>executeTask\<close> resolves with a TaskResult whose status is FAILED and
  whose \<open>error\<close> is present and not empty: it is \<open>Unknown task: \<close> followed by the name.
\<close>

theorem executeTask_unknown_task_fails:
  "task \<notin> set (recognized (cls a)) \<Longrightarrow>
     \<exists>r msg. fst (executeTask E a task ctx W) = Inr r \<and> status r = FAILED \<and>
        error r = Some msg \<and> msg \<noteq> '''' \<and> msg = ''Unknown task: '' @ task"
proof -
  assume unknown: "task \<notin> set (recognized (cls a))"
  obtain t0 W1 where d: "dateNow E W = (t0, W1)"
    by (cases "dateNow E W")
  show ?thesis
    by (simp add: executeTask_eq measureExecutionTime_def d unknown_task_operation [OF unknown]
        createTaskResult_def)
qed

theorem executeTask_unknown_task_fails_witness:
  "''deploy'' \<notin> set (recognized (cls new_APIAgent)) \<and>
   (\<exists>r. fst (executeTask (sim_env 1 None all_pass) new_APIAgent ''deploy'' ()
            (sim_world 0)) = Inr r \<and>
        status r = FAILED \<and> error r = Some ''Unknown task: deploy'')"
proof -
  have h: "''deploy'' \<notin> set (recognized (cls new_APIAgent))"
    by (simp add: recognized_def new_APIAgent_def)
  show ?thesis
    using h executeTask_unknown_task_fails [OF h, of "sim_env 1 None all_pass" "()" "sim_world 0"]
    by auto
qed

subsection \<open>C4: processEvent is fail-soft, and rejects when the report cannot be written\<close>

text \<open>
  C4, as stated, fails: when \<open>fs.writeFile\<close> rejects, \<open>processEvent\<close> rejects with that
  error, although every task succeeded.
\<close>

theorem processEvent_rejects_counterexample:
  "fst (processEvent (sim_env 1 (Some (ErrorObject ''EACCES: permission denied'')) all_pass)
         new_MCPAgentOrchestrator ci_event (sim_world 0)) =
     Inl (ErrorObject ''EACCES: permission denied'')"
  by (simp add: sim_defs run_defs)

text \<open>
  C4, amended. For every pipeline event, with the agents of the constructor (an
  \<open>APIAgent\<close>, a \<open>MobileAgent\<close> and a \<open>WireMockAgent\<close>, in any state) and task bodies
  that throw nothing but \<open>Error\<close> objects and values \<open>String\<close> converts, \<open>processEvent\<close>
  makes the six \<open>executeTask\<close> calls of the task table one after the other, each on the
  agent and in the world the calls before left, and each call resolves with a
  COMPLETED or FAILED TaskResult: no FAILED result keeps a later call from being made.
  Then \<open>processEvent\<close> rejects with the error of \<open>generateAllureReport\<close> when that call
  rejects, and otherwise resolves with the PipelineResult made of the event, the six
  results in the order of the calls, the report of each agent after its calls, the
  report path with the sync message, and the aggregated status.
\<close>

theorem processEvent_failsoft:
  assumes "cls a = APIAgent" and "cls m = MobileAgent" and "cls w = WireMockAgent"
    and "dispatched_bodies_throw_handled E (make_context ev)"
  shows "\<exists>r1 a1 W1 r2 a2 W2 r3 m1 W3 r4 m2 W4 r5 w1 W5 r6 w2 W6.
     executeTask E a ''postman_tests'' (make_context ev) W = (Inr r1, a1, W1) \<and>
     executeTask E a1 ''api_validation'' (make_context ev) W1 = (Inr r2, a2, W2) \<and>
     executeTask E m ''appium_tests'' (make_context ev) W2 = (Inr r3, m1, W3) \<and>
     executeTask E m1 ''webdriver_tests'' (make_context ev) W3 = (Inr r4, m2, W4) \<and>
     executeTask E w ''wiremock_tests'' (make_context ev) W4 = (Inr r5, w1, W5) \<and>
     executeTask E w1 ''wiremock_tests'' (make_context ev) W5 = (Inr r6, w2, W6) \<and>
     (\<forall>r \<in> set [r1, r2, r3, r4, r5, r6]. status r = COMPLETED \<or> status r = FAILED) \<and>
     (case generateAllureReport E [r1, r2, r3, r4, r5, r6] default_outputDir W6 of
        (Inl e, W7) \<Rightarrow>
          processEvent E (wired a m w) ev W = (Inl e, wired a2 m2 w2, delay E 150 W7)
      | (Inr p, W7) \<Rightarrow>
          processEvent E (wired a m w) ev W =
            (Inr \<lparr>event = ev, taskResults = [r1, r2, r3, r4, r5, r6],
                  agentReports =
                    [(''api_agent'', fst (generateReport a2)),
                     (''mobile_agent'', fst (generateReport m2)),
                     (''wiremock_agent'', fst (generateReport w2))],
                  generatedReports =
                    [p, if \<exists>r \<in> set [r1, r2, r3, r4, r5, r6]. status r = FAILED
                        then synced_message
                          (length (filter (\<lambda>r. status r = FAILED) [r1, r2, r3, r4, r5, r6]))
                        else no_issues_message],
                  pipelineStatus = getPipelineStatus [r1, r2, r3, r4, r5, r6]\<rparr>,
             wired a2 m2 w2, delay E 150 W7))"
proof -
  obtain r1 a1 W1 r2 a2 W2 r3 m1 W3 r4 m2 W4 r5 w1 W5 r6 w2 W6 where
    s1: "executeTask E a ''postman_tests'' (make_context ev) W = (Inr r1, a1, W1)" and
    s2: "executeTask E a1 ''api_validation'' (make_context ev) W1 = (Inr r2, a2, W2)" and
    s3: "executeTask E m ''appium_tests'' (make_context ev) W2 = (Inr r3, m1, W3)" and
    s4: "executeTask E m1 ''webdriver_tests'' (make_context ev) W3 = (Inr r4, m2, W4)" and
    s5: "executeTask E w ''wiremock_tests'' (make_context ev) W4 = (Inr r5, w1, W5)" and
    s6: "executeTask E w1 ''wiremock_tests'' (make_context ev) W5 = (Inr r6, w2, W6)" and
    names: "map taskName [r1, r2, r3, r4, r5, r6] =
       [''postman_tests'', ''api_validation'', ''appium_tests'', ''webdriver_tests'',
        ''wiremock_tests'', ''wiremock_tests'']" and
    terminal: "\<forall>r \<in> set [r1, r2, r3, r4, r5, r6]. status r = COMPLETED \<or> status r = FAILED"
    by (rule six_calls_resolve [OF assms])
  note loop = entries_loop_six_calls [OF s1 s2 s3 s4 s5 s6]
  have report: "case generateAllureReport E [r1, r2, r3, r4, r5, r6] default_outputDir W6 of
        (Inl e, W7) \<Rightarrow>
          processEvent E (wired a m w) ev W = (Inl e, wired a2 m2 w2, delay E 150 W7)
      | (Inr p, W7) \<Rightarrow>
          processEvent E (wired a m w) ev W =
            (Inr \<lparr>event = ev, taskResults = [r1, r2, r3, r4, r5, r6],
                  agentReports =
                    [(''api_agent'', fst (generateReport a2)),
                     (''mobile_agent'', fst (generateReport m2)),
                     (''wiremock_agent'', fst (generateReport w2))],
                  generatedReports =
                    [p, if \<exists>r \<in> set [r1, r2, r3, r4, r5, r6]. status r = FAILED
                        then synced_message
                          (length (filter (\<lambda>r. status r = FAILED) [r1, r2, r3, r4, r5, r6]))
                        else no_issues_message],
                  pipelineStatus = getPipelineStatus [r1, r2, r3, r4, r5, r6]\<rparr>,
             wired a2 m2 w2, delay E 150 W7)"
    unfolding processEvent_after_loop [OF loop]
    by (simp add: agents_wired split: prod.splits sum.splits)
  show ?thesis
    by (intro exI conjI) (rule s1 s2 s3 s4 s5 s6 terminal report)+
qed

theorem processEvent_failsoft_witness:
  "cls new_APIAgent = APIAgent \<and> cls new_MobileAgent = MobileAgent \<and>
   cls new_WireMockAgent = WireMockAgent \<and>
   dispatched_bodies_throw_handled (sim_env 1 None (boom_on ''postman_tests''))
     (make_context ci_event) \<and>
   (\<exists>res. fst (processEvent (sim_env 1 None (boom_on ''postman_tests''))
             (wired new_APIAgent new_MobileAgent new_WireMockAgent) ci_event
             (sim_world 0)) = Inr res \<and>
     map status (taskResults res) =
       [FAILED, COMPLETED, COMPLETED, COMPLETED, COMPLETED, COMPLETED] \<and>
     map taskName (taskResults res) =
       [''postman_tests'', ''api_validation'', ''appium_tests'', ''webdriver_tests'',
        ''wiremock_tests'', ''wiremock_tests''] \<and>
     pipelineStatus res = ''FAILED'')"
proof -
  let ?E = "sim_env 1 None (boom_on ''postman_tests'') :: (task_context, nat) env"
  let ?run = "processEvent ?E (wired new_APIAgent new_MobileAgent new_WireMockAgent) ci_event
      (sim_world 0)"
  have ca: "cls new_APIAgent = APIAgent" and cm: "cls new_MobileAgent = MobileAgent"
    and cw: "cls new_WireMockAgent = WireMockAgent"
    by (simp_all add: new_APIAgent_def new_MobileAgent_def new_WireMockAgent_def)
  have h: "dispatched_bodies_throw_handled ?E (make_context ci_event)"
    by (simp add: dispatched_bodies_throw_handled_def sim_env_def boom_on_def)
  have "\<exists>res. fst ?run = Inr res \<and>
      map status (taskResults res) =
        [FAILED, COMPLETED, COMPLETED, COMPLETED, COMPLETED, COMPLETED] \<and>
      map taskName (taskResults res) =
        [''postman_tests'', ''api_validation'', ''appium_tests'', ''webdriver_tests'',
         ''wiremock_tests'', ''wiremock_tests'']"
    by (simp add: sim_defs run_defs wired_def)
  then obtain res where res: "fst ?run = Inr res" and
    statuses: "map status (taskResults res) =
        [FAILED, COMPLETED, COMPLETED, COMPLETED, COMPLETED, COMPLETED]" and
    names: "map taskName (taskResults res) =
        [''postman_tests'', ''api_validation'', ''appium_tests'', ''webdriver_tests'',
         ''wiremock_tests'', ''wiremock_tests'']"
    by (elim exE conjE) (rule that)
  from processEvent_failsoft [OF ca cm cw h, of "sim_world 0"]
  obtain r1 r2 r3 r4 r5 r6 a2 m2 w2 W6 where
    report: "case generateAllureReport ?E [r1, r2, r3, r4, r5, r6] default_outputDir W6 of
        (Inl e, W7) \<Rightarrow> ?run = (Inl e, wired a2 m2 w2, delay ?E 150 W7)
      | (Inr p, W7) \<Rightarrow>
          ?run =
            (Inr \<lparr>event = ci_event, taskResults = [r1, r2, r3, r4, r5, r6],
                  agentReports =
                    [(''api_agent'', fst (generateReport a2)),
                     (''mobile_agent'', fst (generateReport m2)),
                     (''wiremock_agent'', fst (generateReport w2))],
                  generatedReports =
                    [p, if \<exists>r \<in> set [r1, r2, r3, r4, r5, r6]. status r = FAILED
                        then synced_message
                          (length (filter (\<lambda>r. status r = FAILED) [r1, r2, r3, r4, r5, r6]))
                        else no_issues_message],
                  pipelineStatus = getPipelineStatus [r1, r2, r3, r4, r5, r6]\<rparr>,
             wired a2 m2 w2, delay ?E 150 W7)"
    by (elim exE conjE) (rule that)
  from report res have "pipelineStatus res = getPipelineStatus (taskResults res)"
    by (auto split: prod.splits sum.splits)
  moreover from statuses have "\<exists>r \<in> set (taskResults res). status r = FAILED"
    by (cases "taskResults res") auto
  ultimately have "pipelineStatus res = ''FAILED''"
    by (simp add: getPipelineStatus_def list_ex_iff)
  with res statuses names h ca cm cw show ?thesis
    by (intro conjI exI [of _ res])
qed

subsection \<open>C5: the counts of a report add up\<close>



subsection \<open>C6: two reports written in the same millisecond\<close>

text \<open>
  C6 says that two calls of \<open>generateAllureReport\<close> in one process run write two distinct
  files. The file name has nothing but the reading of \<open>Date.now()\<close> to tell the calls
  apart: two calls that read the same millisecond (here 1000) both return
  \<open>pipeline-reports/allure-report-1000.json\<close>, and the second write replaces the summary
  of the first (\<open>totalTests\<close> 0 after the first call, 1 after the second, in the same
  file).
\<close>

theorem generateAllureReport_same_millisecond:
  "fst (generateAllureReport (sim_env 0 None all_pass) [] default_outputDir (sim_world 1000)) =
     Inr ''pipeline-reports/allure-report-1000.json'' \<and>
   fst (generateAllureReport (sim_env 0 None all_pass)
      [createTaskResult ''a'' COMPLETED ''ok'' 1 None] default_outputDir
      (snd (generateAllureReport (sim_env 0 None all_pass) [] default_outputDir
         (sim_world 1000)))) =
     Inr ''pipeline-reports/allure-report-1000.json'' \<and>
   map_option data_totalTests
     (files (snd (generateAllureReport (sim_env 0 None all_pass) [] default_outputDir
        (sim_world 1000))) ''pipeline-reports/allure-report-1000.json'') = Some 0 \<and>
   map_option data_totalTests
     (files (snd (generateAllureReport (sim_env 0 None all_pass)
        [createTaskResult ''a'' COMPLETED ''ok'' 1 None] default_outputDir
        (snd (generateAllureReport (sim_env 0 None all_pass) [] default_outputDir
           (sim_world 1000))))) ''pipeline-reports/allure-report-1000.json'') = Some 1"
  by (simp add: sim_defs run_defs show_nat_eval)

subsection \<open>C7: the tracker sync\<close>

text \<open>
  C7. For every list of TaskResults, \<open>syncWithZephyrJira\<close> resolves with the "no issues"
  message when no result is FAILED (so also for the empty list) and otherwise with the
  "synced" message for the number of FAILED results; its outcome is the same on the
  list and on the FAILED results of the list alone. A "synced" message is never the "no
  issues" message, and "synced" messages for different counts differ.
\<close>

theorem syncWithZephyrJira_messages:
  "fst (syncWithZephyrJira E rs W) =
     Inr (if \<exists>r \<in> set rs. status r = FAILED
          then synced_message (length (filter (\<lambda>r. status r = FAILED) rs))
          else no_issues_message) \<and>
   syncWithZephyrJira E rs W = syncWithZephyrJira E (filter (\<lambda>r. status r = FAILED) rs) W \<and>
   synced_message n \<noteq> no_issues_message \<and>
   (synced_message m = synced_message n \<longleftrightarrow> m = n)"
  using synced_ne_no_issues [of n] synced_message_inj [of m n]
  by (auto simp: syncWithZephyrJira_def Let_def filter_empty_conv)

theorem syncWithZephyrJira_messages_witness:
  "fst (syncWithZephyrJira (sim_env 1 None all_pass) [] (sim_world 0)) =
     Inr ''No issues to sync with Jira/Zephyr - all tests passed!'' \<and>
   fst (syncWithZephyrJira (sim_env 1 None all_pass)
     [createTaskResult ''a'' COMPLETED ''ok'' 1 None,
      createTaskResult ''b'' FAILED '''' 0 (Some ''boom'')] (sim_world 0)) =
     Inr ''Mock: Synced 1 failed test(s) with Jira.''"
  using syncWithZephyrJira_messages [of "sim_env 1 None all_pass" "[]" "sim_world 0" 1 1,
      THEN conjunct1]
    syncWithZephyrJira_messages [of "sim_env 1 None all_pass"
      "[createTaskResult ''a'' COMPLETED ''ok'' 1 None,
        createTaskResult ''b'' FAILED '''' 0 (Some ''boom'')]" "sim_world 0" 1 1,
      THEN conjunct1]
  by (simp add: createTaskResult_def synced_message_def no_issues_message_def show_nat_eval)

subsection \<open>C8: the task table\<close>

text \<open>
  C8. \<open>getTasksForEvent\<close> returns the same fixed table from agent name to task list for
  every pipeline event, whatever its \<open>eventType\<close> and its other fields.
\<close>

theorem getTasksForEvent_fixed_table:
  "getTasksForEvent ev =
     [(''api_agent'', [''postman_tests'', ''api_validation'']),
      (''mobile_agent'', [''appium_tests'', ''webdriver_tests'']),
      (''wiremock_agent'', [''wiremock_tests'', ''wiremock_tests''])] \<and>
   getTasksForEvent ev = getTasksForEvent ev'"
  by (simp add: getTasksForEvent_def Let_def split: EventType.splits)

theorem getTasksForEvent_fixed_table_witness:
  "getTasksForEvent ci_event =
     [(''api_agent'', [''postman_tests'', ''api_validation'']),
      (''mobile_agent'', [''appium_tests'', ''webdriver_tests'']),
      (''wiremock_agent'', [''wiremock_tests'', ''wiremock_tests''])] \<and>
   getTasksForEvent ci_event = getTasksForEvent (ci_event\<lparr>eventType := DEV_EVENT\<rparr>)"
  by (rule getTasksForEvent_fixed_table [of ci_event "ci_event\<lparr>eventType := DEV_EVENT\<rparr>"])

subsection \<open>C9: the report of a fresh agent, and generateReport changes nothing\<close>

text \<open>
  C9. For a new agent of any class, \<open>generateReport\<close> returns the report with
  \<open>totalTests\<close>, \<open>passedTests\<close> and \<open>failedTests\<close> 0 and no \<open>testResults\<close> (and the agent
  type of the class). For an agent in any state, \<open>generateReport\<close> leaves the agent as it
  was, so that a second call returns the same report.
\<close>

theorem generateReport_fresh_and_pure:
  "fst (generateReport (new_agent c)) =
     \<lparr>agentType = this_agentType (new_agent c), totalTests = 0, passedTests = 0,
      failedTests = 0, testResults = []\<rparr> \<and>
   snd (generateReport a) = a \<and>
   fst (generateReport (snd (generateReport a))) = fst (generateReport a)"
  by (cases c)
    (simp_all add: generateReport_def Let_def new_agent_def new_APIAgent_def new_MobileAgent_def
      new_WireMockAgent_def new_HeadSpinAgent_def)

theorem generateReport_fresh_and_pure_witness:
  "fst (generateReport (new_agent WireMockAgent)) =
     \<lparr>agentType = WIREMOCK_AGENT, totalTests = 0, passedTests = 0, failedTests = 0,
      testResults = []\<rparr> \<and>
   snd (generateReport new_WireMockAgent) = new_WireMockAgent"
  using generateReport_fresh_and_pure [of WireMockAgent new_WireMockAgent]
  by (simp add: new_agent_def new_WireMockAgent_def)

subsection \<open>C10: six tasks in a fixed order\<close>

text \<open>
  C10. For every pipeline event, with the agents of the constructor (an \<open>APIAgent\<close>, a
  \<open>MobileAgent\<close> and a \<open>WireMockAgent\<close>, in any state) and task bodies that throw
  nothing but \<open>Error\<close> objects and values \<open>String\<close> converts (as the task bodies of
  these agents do in the context \<open>processEvent\<close> builds), the loops of \<open>processEvent\<close> are exactly six calls
  of \<open>executeTask\<close>, made one after the other, each on the agent and in the world the
  calls before left: \<open>postman_tests\<close> then \<open>api_validation\<close> on \<open>api_agent\<close>,
  \<open>appium_tests\<close> then \<open>webdriver_tests\<close> on \<open>mobile_agent\<close>, \<open>wiremock_tests\<close> and once
  more \<open>wiremock_tests\<close> on \<open>wiremock_agent\<close>. The loops end with the six results of
  these calls in the order of the calls, with the three agents as their calls left
  them and in the world the last call left; the results carry the six task names; and
  every PipelineResult that \<open>processEvent\<close> resolves with has exactly these six results
  as its \<open>taskResults\<close>, in this order.
\<close>

theorem processEvent_dispatches_six:
  assumes "cls a = APIAgent" and "cls m = MobileAgent" and "cls w = WireMockAgent"
    and "dispatched_bodies_throw_handled E (make_context ev)"
  shows "\<exists>r1 a1 W1 r2 a2 W2 r3 m1 W3 r4 m2 W4 r5 w1 W5 r6 w2 W6.
     executeTask E a ''postman_tests'' (make_context ev) W = (Inr r1, a1, W1) \<and>
     executeTask E a1 ''api_validation'' (make_context ev) W1 = (Inr r2, a2, W2) \<and>
     executeTask E m ''appium_tests'' (make_context ev) W2 = (Inr r3, m1, W3) \<and>
     executeTask E m1 ''webdriver_tests'' (make_context ev) W3 = (Inr r4, m2, W4) \<and>
     executeTask E w ''wiremock_tests'' (make_context ev) W4 = (Inr r5, w1, W5) \<and>
     executeTask E w1 ''wiremock_tests'' (make_context ev) W5 = (Inr r6, w2, W6) \<and>
     entries_loop E ev (getTasksForEvent ev) (wired a m w) [] W =
       (Inr [r1, r2, r3, r4, r5, r6], wired a2 m2 w2, W6) \<and>
     map taskName [r1, r2, r3, r4, r5, r6] =
       [''postman_tests'', ''api_validation'', ''appium_tests'', ''webdriver_tests'',
        ''wiremock_tests'', ''wiremock_tests''] \<and>
     fst (snd (processEvent E (wired a m w) ev W)) = wired a2 m2 w2 \<and>
     (\<forall>res. fst (processEvent E (wired a m w) ev W) = Inr res \<longrightarrow>
        taskResults res = [r1, r2, r3, r4, r5, r6] \<and> length (taskResults res) = 6)"
proof -
  obtain r1 a1 W1 r2 a2 W2 r3 m1 W3 r4 m2 W4 r5 w1 W5 r6 w2 W6 where
    s1: "executeTask E a ''postman_tests'' (make_context ev) W = (Inr r1, a1, W1)" and
    s2: "executeTask E a1 ''api_validation'' (make_context ev) W1 = (Inr r2, a2, W2)" and
    s3: "executeTask E m ''appium_tests'' (make_context ev) W2 = (Inr r3, m1, W3)" and
    s4: "executeTask E m1 ''webdriver_tests'' (make_context ev) W3 = (Inr r4, m2, W4)" and
    s5: "executeTask E w ''wiremock_tests'' (make_context ev) W4 = (Inr r5, w1, W5)" and
    s6: "executeTask E w1 ''wiremock_tests'' (make_context ev) W5 = (Inr r6, w2, W6)" and
    names: "map taskName [r1, r2, r3, r4, r5, r6] =
       [''postman_tests'', ''api_validation'', ''appium_tests'', ''webdriver_tests'',
        ''wiremock_tests'', ''wiremock_tests'']" and
    terminal: "\<forall>r \<in> set [r1, r2, r3, r4, r5, r6]. status r = COMPLETED \<or> status r = FAILED"
    by (rule six_calls_resolve [OF assms])
  note loop = entries_loop_six_calls [OF s1 s2 s3 s4 s5 s6]
  have after: "fst (snd (processEvent E (wired a m w) ev W)) = wired a2 m2 w2"
    unfolding processEvent_after_loop [OF loop]
    by (simp split: prod.splits sum.splits)
  have resolved: "\<forall>res. fst (processEvent E (wired a m w) ev W) = Inr res \<longrightarrow>
        taskResults res = [r1, r2, r3, r4, r5, r6] \<and> length (taskResults res) = 6"
    unfolding processEvent_after_loop [OF loop]
    by (auto split: prod.splits sum.splits)
  show ?thesis
    by (intro exI conjI) (rule s1 s2 s3 s4 s5 s6 loop names after resolved)+
qed

theorem processEvent_dispatches_six_witness:
  "cls new_APIAgent = APIAgent \<and> cls new_MobileAgent = MobileAgent \<and>
   cls new_WireMockAgent = WireMockAgent \<and>
   dispatched_bodies_throw_handled (sim_env 1 None all_pass) (make_context ci_event) \<and>
   (\<exists>res. fst (processEvent (sim_env 1 None all_pass)
             (wired new_APIAgent new_MobileAgent new_WireMockAgent) ci_event
             (sim_world 0)) = Inr res \<and>
     map taskName (taskResults res) =
       [''postman_tests'', ''api_validation'', ''appium_tests'', ''webdriver_tests'',
        ''wiremock_tests'', ''wiremock_tests''])"
proof -
  let ?run = "processEvent (sim_env 1 None all_pass)
      (wired new_APIAgent new_MobileAgent new_WireMockAgent) ci_event (sim_world 0)"
  have ca: "cls new_APIAgent = APIAgent" and cm: "cls new_MobileAgent = MobileAgent"
    and cw: "cls new_WireMockAgent = WireMockAgent"
    by (simp_all add: new_APIAgent_def new_MobileAgent_def new_WireMockAgent_def)
  have h: "dispatched_bodies_throw_handled (sim_env 1 None all_pass) (make_context ci_event)"
    by (simp add: dispatched_bodies_throw_handled_def sim_env_def all_pass_def)
  have "\<exists>res. fst ?run = Inr res"
    by (simp add: sim_defs run_defs wired_def)
  then obtain res where res: "fst ?run = Inr res" ..
  have "\<forall>res. fst ?run = Inr res \<longrightarrow>
      map taskName (taskResults res) =
        [''postman_tests'', ''api_validation'', ''appium_tests'', ''webdriver_tests'',
         ''wiremock_tests'', ''wiremock_tests'']"
    using processEvent_dispatches_six [OF ca cm cw h, of "sim_world 0"]
    by (elim exE conjE) simp
  with res h ca cm cw show ?thesis by blast
qed

end
